theory Spec2Isabelle
  imports Main
begin

section \<open>Python values, errors and strings\<close>

text \<open>
  The module \<^verbatim>\<open>peaclock/scripts/peaclockfunks.py\<close> resolves one dictionary, the
  configuration, from built-in defaults, a YAML file and command-line arguments.
  Its values are what YAML and argparse deliver: \<^verbatim>\<open>None\<close>, booleans, integers,
  strings and lists (floats and nested mappings, which no function of the module looks
  into, are left out). Dictionary keys are Python values as well (YAML keys, and
  whatever is passed as \<^verbatim>\<open>key\<close> to \<^verbatim>\<open>add_arg_to_config\<close>).
\<close>

datatype pyval =
    PNone
  | PBool bool
  | PInt int
  | PStr string
  | PList "pyval list"

text \<open>Python's truth value, as tested by \<^verbatim>\<open>if arg:\<close>.\<close>

fun truthy :: "pyval \<Rightarrow> bool" where
  "truthy PNone = False"
| "truthy (PBool b) = b"
| "truthy (PInt i) = (i \<noteq> 0)"
| "truthy (PStr s) = (s \<noteq> [])"
| "truthy (PList vs) = (vs \<noteq> [])"

text \<open>
  The messages that the functions below write to standard error before
  \<^verbatim>\<open>sys.exit(-1)\<close>, one constructor for each place that does so, with the path that the
  message names.
\<close>

datatype fatal =
    Cannot_find_configfile string
  | Guppy_fails_to_run string
  | Provide_path_to_guppy
  | Cannot_find_reads string
  | Cannot_find_fastq_files string
  | Read_dir_needed
  | Cannot_find_barcodes_csv string
  | Missing_header_field_barcode
  | Provide_barcodes_in_format

text \<open>
  Every way in which a function of the module stops without returning: a fatal
  message followed by \<^verbatim>\<open>sys.exit(-1)\<close>, or an exception that nothing catches.
\<close>

datatype error =
    SystemExit int fatal
  | NameError string
  | KeyError pyval
  | TypeError
  | AttributeError
  | IndexError
  | OSError
  | YAMLError

text \<open>Sequencing: the first error ends the function, as a raise does.\<close>

definition and_then :: "error + 'a \<Rightarrow> ('a \<Rightarrow> error + 'b) \<Rightarrow> error + 'b" where
  "and_then m f = (case m of Inl e \<Rightarrow> Inl e | Inr x \<Rightarrow> f x)"

text \<open>\<^verbatim>\<open>s.startswith(p)\<close>, \<^verbatim>\<open>s.endswith(p)\<close>, \<^verbatim>\<open>s.replace("-","_")\<close>, \<^verbatim>\<open>s.lstrip("-")\<close>.\<close>

definition startswith :: "string \<Rightarrow> string \<Rightarrow> bool" where
  "startswith s p = (take (length p) s = p)"

definition endswith :: "string \<Rightarrow> string \<Rightarrow> bool" where
  "endswith s p = (length p \<le> length s \<and> drop (length s - length p) s = p)"

definition replace_hyphens :: "string \<Rightarrow> string" where
  "replace_hyphens s = map (\<lambda>c. if c = CHR ''-'' then CHR ''_'' else c) s"

definition lstrip_hyphens :: "string \<Rightarrow> string" where
  "lstrip_hyphens s = dropWhile (\<lambda>c. c = CHR ''-'') s"

text \<open>
  \<^verbatim>\<open>s.lower()\<close> on the letters A to Z. No character outside ASCII has a lower-case
  form that contains one of the letters of \<^verbatim>\<open>.fastq\<close>, which is all that the module
  looks for in a lower-cased name.
\<close>

definition lower_char :: "char \<Rightarrow> char" where
  "lower_char c =
     (case map_of (zip ''ABCDEFGHIJKLMNOPQRSTUVWXYZ'' ''abcdefghijklmnopqrstuvwxyz'') c of
        None \<Rightarrow> c
      | Some l \<Rightarrow> l)"

definition lower :: "string \<Rightarrow> string" where
  "lower s = map lower_char s"

text \<open>\<^verbatim>\<open>sep.join(xs)\<close>.\<close>

fun join_str :: "string \<Rightarrow> string list \<Rightarrow> string" where
  "join_str sep [] = []"
| "join_str sep [x] = x"
| "join_str sep (x # y # ys) = x @ sep @ join_str sep (y # ys)"

text \<open>The decimal numeral that an f-string prints for a length.\<close>

definition digit_char :: "nat \<Rightarrow> char" where
  "digit_char d = ''0123456789'' ! d"

function string_of_nat :: "nat \<Rightarrow> string" where
  "string_of_nat n =
     (if n < 10 then [digit_char n] else string_of_nat (n div 10) @ [digit_char (n mod 10)])"
  by pat_completeness auto
termination
  by (relation "measure id") auto

declare string_of_nat.simps [simp del]

text \<open>
  \<^verbatim>\<open>os.path.join\<close> of \<^verbatim>\<open>posixpath\<close>: an absolute second component replaces the
  first, otherwise one separator stands between the two.
\<close>

definition path_join :: "string \<Rightarrow> string \<Rightarrow> string" where
  "path_join a b =
     (if startswith b ''/'' then b
      else if a = [] \<or> endswith a ''/'' then a @ b
      else a @ ''/'' @ b)"

text \<open>
  A path handed to \<^verbatim>\<open>os.path.join\<close> or \<^verbatim>\<open>os.path.expanduser\<close> has to be a string;
  any other value raises \<^verbatim>\<open>TypeError\<close>.
\<close>

fun as_path :: "pyval \<Rightarrow> error + string" where
  "as_path (PStr s) = Inr s"
| "as_path v = Inl TypeError"

text \<open>The colour helpers: the text between two ANSI escape sequences.\<close>

definition END_FORMATTING :: string where
  "END_FORMATTING = [CHR 0x1B] @ ''[0m''"

definition GREEN :: string where
  "GREEN = [CHR 0x1B] @ ''[32m''"

definition CYAN :: string where
  "CYAN = [CHR 0x1B] @ ''[36m''"

definition green :: "string \<Rightarrow> string" where
  "green text = GREEN @ text @ END_FORMATTING"

definition cyan :: "string \<Rightarrow> string" where
  "cyan text = CYAN @ text @ END_FORMATTING"

section \<open>The configuration\<close>

text \<open>
  The configuration is a Python \<^verbatim>\<open>dict\<close>. A list is not hashable and cannot be a key
  (\<^verbatim>\<open>TypeError\<close>); \<^verbatim>\<open>True\<close> and \<^verbatim>\<open>1\<close>, and \<^verbatim>\<open>False\<close> and \<^verbatim>\<open>0\<close>, are the same key.
\<close>

type_synonym config = "pyval \<rightharpoonup> pyval"

fun dict_key :: "pyval \<Rightarrow> pyval option" where
  "dict_key (PList vs) = None"
| "dict_key (PInt i) =
     (if i = 1 then Some (PBool True) else if i = 0 then Some (PBool False) else Some (PInt i))"
| "dict_key v = Some v"

text \<open>\<^verbatim>\<open>config[key]\<close> for the string keys that the module reads.\<close>

definition lookup :: "config \<Rightarrow> string \<Rightarrow> error + pyval" where
  "lookup config k =
     (case config (PStr k) of None \<Rightarrow> Inl (KeyError (PStr k)) | Some v \<Rightarrow> Inr v)"

definition get_defaults :: config where
  "get_defaults =
     [PStr ''no_temp'' \<mapsto> PBool False,
      PStr ''demultiplex'' \<mapsto> PBool False,
      PStr ''path_to_guppy'' \<mapsto> PBool False,
      PStr ''output_prefix'' \<mapsto> PStr ''peaclock'',
      PStr ''species'' \<mapsto> PStr ''apodemus'',
      PStr ''barcodes'' \<mapsto> PStr ''native'',
      PStr ''configfile'' \<mapsto> PStr ''config.yaml'',
      PStr ''allowed_species'' \<mapsto> PList [PStr ''apodemus'', PStr ''mus'', PStr ''phalacrocorax''],
      PStr ''force'' \<mapsto> PBool True]"

text \<open>
  \<^verbatim>\<open>add_arg_to_config(key, arg, config)\<close>: a truthy \<^verbatim>\<open>arg\<close> is stored under \<^verbatim>\<open>key\<close>,
  anything else leaves the configuration as it is.
\<close>

definition add_arg_to_config :: "pyval \<Rightarrow> pyval \<Rightarrow> config \<Rightarrow> error + config" where
  "add_arg_to_config key arg config =
     (if truthy arg then
        (case dict_key key of
           None \<Rightarrow> Inl TypeError
         | Some k \<Rightarrow> Inr (config(k \<mapsto> arg)))
      else Inr config)"

section \<open>The outside world\<close>

text \<open>
  What the module asks of the operating system and of its libraries is a parameter of
  every function below: the answer of each call, as the function sees it.
  \<^item> \<open>expanduser\<close>, \<open>path_exists\<close>, \<open>isfile\<close>: \<^verbatim>\<open>os.path.expanduser\<close>,
    \<^verbatim>\<open>os.path.exists\<close>, \<^verbatim>\<open>os.path.isfile\<close>;
  \<^item> \<open>mkdir\<close>: \<^verbatim>\<open>os.mkdir\<close>, which raises where it cannot create the directory;
  \<^item> \<open>TemporaryDirectory\<close>: the \<^verbatim>\<open>name\<close> of a new \<^verbatim>\<open>tempfile.TemporaryDirectory\<close>
    under the given directory, or under the system's default for \<open>None\<close>;
  \<^item> \<open>os_walk\<close>: the triples \<^verbatim>\<open>(r, d, f)\<close> that \<^verbatim>\<open>os.walk\<close> yields;
  \<^item> \<open>os_system\<close>: the status that \<^verbatim>\<open>os.system\<close> returns;
  \<^item> \<open>yaml_load\<close>: the items, in document order, of the mapping that \<^verbatim>\<open>yaml.load\<close>
    reads from the opened file (a dictionary: each key occurs once);
  \<^item> \<open>open_csv\<close>: the \<^verbatim>\<open>fieldnames\<close> of the \<^verbatim>\<open>csv.DictReader\<close> on the opened
    file (\<open>None\<close> for an empty file) and the dictionaries it yields, row by row;
  \<^item> \<open>seqio_parse\<close>: \<^verbatim>\<open>len(record)\<close> for each record that \<^verbatim>\<open>SeqIO.parse\<close> yields
    from the file, in file order.

  A function returns its result, or the error that ends it. The configuration, which
  the source changes in place, is returned with the result. The notes that the
  functions print on standard output are kept for \<^verbatim>\<open>look_for_barcodes_csv\<close> only, where
  they are all that is left of the barcode list.
\<close>

type_synonym row = "string \<rightharpoonup> pyval"

record csv_table =
  fieldnames :: "string list option"
  rows :: "row list"

record os_env =
  expanduser :: "string \<Rightarrow> string"
  path_exists :: "string \<Rightarrow> bool"
  isfile :: "string \<Rightarrow> bool"
  mkdir :: "string \<Rightarrow> error + unit"
  TemporaryDirectory :: "string option \<Rightarrow> error + string"
  os_walk :: "string \<Rightarrow> (string \<times> string list \<times> string list) list"
  os_system :: "string \<Rightarrow> int"
  yaml_load :: "string \<Rightarrow> error + (pyval \<times> pyval) list"
  open_csv :: "string \<Rightarrow> error + csv_table"
  seqio_parse :: "pyval \<Rightarrow> error + nat list"

section \<open>Locating and reading the config file\<close>

text \<open>
  \<^verbatim>\<open>look_for_config(configfile_arg, cwd, config)\<close> returns \<^verbatim>\<open>configfile\<close>; the
  embedding returns the configuration with it. With an argument, the function joins
  it to \<^verbatim>\<open>cwd\<close> and then evaluates \<^verbatim>\<open>os.path.dirname(input_file)\<close>. The module binds
  the name \<^verbatim>\<open>input_file\<close> nowhere, neither as a parameter nor as a global, so that the
  evaluation raises \<^verbatim>\<open>NameError\<close>, and the lines after it in that branch (storing
  \<^verbatim>\<open>path_to_config\<close>, testing \<^verbatim>\<open>os.path.isfile\<close>, storing \<^verbatim>\<open>configfile\<close> or exiting) are
  never run.
\<close>

definition look_for_config ::
  "os_env \<Rightarrow> pyval \<Rightarrow> string \<Rightarrow> config \<Rightarrow> error + (config \<times> string)" where
  "look_for_config env configfile_arg cwd config =
     (if truthy configfile_arg then
        and_then (as_path configfile_arg) (\<lambda>a.
          let configfile = path_join cwd a in
          Inl (NameError ''input_file''))
      else
        (let configfile = path_join cwd ''config.yaml'';
             config1 = config(PStr ''path_to_config'' \<mapsto> PStr cwd)
         in if isfile env configfile
            then Inr (config1(PStr ''configfile'' \<mapsto> PStr configfile), configfile)
            else Inr (config1, '''')))"

text \<open>
  \<^verbatim>\<open>parse_yaml_file(configfile, config)\<close>. Each key is normalised by
  \<^verbatim>\<open>key.replace("-","_").lstrip("-")\<close>, the replacement first; a key that is not a string
  has no \<^verbatim>\<open>replace\<close>.
\<close>

definition snakecase_key :: "string \<Rightarrow> string" where
  "snakecase_key key = lstrip_hyphens (replace_hyphens key)"

fun merge_input_config :: "(pyval \<times> pyval) list \<Rightarrow> config \<Rightarrow> error + config" where
  "merge_input_config [] config = Inr config"
| "merge_input_config ((PStr key, v) # rest) config =
     merge_input_config rest (config(PStr (snakecase_key key) \<mapsto> v))"
| "merge_input_config ((k, v) # rest) config = Inl AttributeError"

definition parse_yaml_file :: "os_env \<Rightarrow> string \<Rightarrow> config \<Rightarrow> error + config" where
  "parse_yaml_file env configfile config =
     and_then (yaml_load env configfile) (\<lambda>input_config.
       merge_input_config input_config config)"

section \<open>The temporary directory\<close>

text \<open>
  The two branches of \<^verbatim>\<open>get_temp_dir\<close> for a directory given by the argument or by the
  config file are the same five lines, written once here. In all three branches that
  make a \<^verbatim>\<open>tempfile.TemporaryDirectory\<close> the source keeps the \<^verbatim>\<open>name\<close> of the object and
  not the object.
\<close>

definition temporary_directory_in :: "os_env \<Rightarrow> string \<Rightarrow> pyval \<Rightarrow> error + string" where
  "temporary_directory_in env cwd path =
     and_then (as_path path) (\<lambda>p.
       let to_be_dir = path_join cwd (expanduser env p) in
       and_then (if path_exists env to_be_dir then Inr () else mkdir env to_be_dir) (\<lambda>u.
         TemporaryDirectory env (Some to_be_dir)))"

text \<open>\<^verbatim>\<open>get_temp_dir\<close> returns \<^verbatim>\<open>tempdir\<close>; the embedding returns the configuration with it.\<close>

definition get_temp_dir ::
  "os_env \<Rightarrow> pyval \<Rightarrow> pyval \<Rightarrow> string \<Rightarrow> config \<Rightarrow> error + (config \<times> pyval)" where
  "get_temp_dir env tempdir_arg no_temp_arg cwd config =
     and_then (lookup config ''outdir'') (\<lambda>outdir.
       if truthy no_temp_arg then
         Inr (config(PStr ''no_temp'' \<mapsto> no_temp_arg, PStr ''tempdir'' \<mapsto> outdir), outdir)
       else
         and_then (lookup config ''no_temp'') (\<lambda>no_temp.
           if truthy no_temp then
             Inr (config(PStr ''tempdir'' \<mapsto> outdir), outdir)
           else if truthy tempdir_arg then
             and_then (temporary_directory_in env cwd tempdir_arg) (\<lambda>name.
               Inr (config(PStr ''tempdir'' \<mapsto> PStr name), PStr name))
           else
             (case config (PStr ''tempdir'') of
                Some t \<Rightarrow>
                  and_then (temporary_directory_in env cwd t) (\<lambda>name.
                    Inr (config(PStr ''tempdir'' \<mapsto> PStr name), PStr name))
              | None \<Rightarrow>
                  and_then (TemporaryDirectory env None) (\<lambda>name.
                    Inr (config(PStr ''tempdir'' \<mapsto> PStr name), PStr name)))))"

subsection \<open>The directories on disk\<close>

text \<open>
  The same function once more, now with the set of directories that exist, which it
  takes and returns changed. \<^verbatim>\<open>os.mkdir\<close> and \<^verbatim>\<open>tempfile.TemporaryDirectory\<close> each add
  the directory they make. A \<^verbatim>\<open>TemporaryDirectory\<close> object removes its directory, with
  everything below it, when the object is destroyed. In \<^verbatim>\<open>get_temp_dir\<close> the only
  reference to the object is the local name \<^verbatim>\<open>temporary_directory\<close>; \<^verbatim>\<open>tempdir\<close> and
  \<^verbatim>\<open>config["tempdir"]\<close> hold the string \<^verbatim>\<open>temporary_directory.name\<close>. The local name ends
  when the function returns, and with it the object (CPython destroys an object as
  soon as nothing refers to it), so that the removal is the last thing that happens
  in each branch that makes a temporary directory.
\<close>

definition rmtree :: "string \<Rightarrow> string set \<Rightarrow> string set" where
  "rmtree name dirs = {d \<in> dirs. d \<noteq> name \<and> \<not> startswith d (name @ ''/'')}"

definition temporary_directory_in_dirs ::
  "os_env \<Rightarrow> string \<Rightarrow> pyval \<Rightarrow> string set \<Rightarrow> error + (string \<times> string set)" where
  "temporary_directory_in_dirs env cwd path dirs =
     and_then (as_path path) (\<lambda>p.
       let to_be_dir = path_join cwd (expanduser env p) in
       and_then (if path_exists env to_be_dir then Inr dirs
                 else and_then (mkdir env to_be_dir) (\<lambda>u. Inr (insert to_be_dir dirs))) (\<lambda>dirs1.
         and_then (TemporaryDirectory env (Some to_be_dir)) (\<lambda>name.
           Inr (name, insert name dirs1))))"

definition get_temp_dir_dirs ::
  "os_env \<Rightarrow> pyval \<Rightarrow> pyval \<Rightarrow> string \<Rightarrow> config \<Rightarrow> string set
     \<Rightarrow> error + (config \<times> pyval \<times> string set)" where
  "get_temp_dir_dirs env tempdir_arg no_temp_arg cwd config dirs =
     and_then (lookup config ''outdir'') (\<lambda>outdir.
       if truthy no_temp_arg then
         Inr (config(PStr ''no_temp'' \<mapsto> no_temp_arg, PStr ''tempdir'' \<mapsto> outdir), outdir, dirs)
       else
         and_then (lookup config ''no_temp'') (\<lambda>no_temp.
           if truthy no_temp then
             Inr (config(PStr ''tempdir'' \<mapsto> outdir), outdir, dirs)
           else if truthy tempdir_arg then
             and_then (temporary_directory_in_dirs env cwd tempdir_arg dirs) (\<lambda>(name, dirs1).
               Inr (config(PStr ''tempdir'' \<mapsto> PStr name), PStr name, rmtree name dirs1))
           else
             (case config (PStr ''tempdir'') of
                Some t \<Rightarrow>
                  and_then (temporary_directory_in_dirs env cwd t dirs) (\<lambda>(name, dirs1).
                    Inr (config(PStr ''tempdir'' \<mapsto> PStr name), PStr name, rmtree name dirs1))
              | None \<Rightarrow>
                  and_then (TemporaryDirectory env None) (\<lambda>name.
                    Inr (config(PStr ''tempdir'' \<mapsto> PStr name), PStr name,
                         rmtree name (insert name dirs))))))"

section \<open>The read-length filter\<close>

text \<open>
  \<^verbatim>\<open>get_read_length_filter(config)\<close>: \<^verbatim>\<open>lengths[0]\<close> and \<^verbatim>\<open>lengths[-1]\<close> of the sorted
  list, which raise \<^verbatim>\<open>IndexError\<close> on the empty list.
\<close>

definition get_read_length_filter :: "os_env \<Rightarrow> config \<Rightarrow> error + config" where
  "get_read_length_filter env config =
     and_then (lookup config ''genes'') (\<lambda>genes.
       and_then (seqio_parse env genes) (\<lambda>records.
         let lengths = sort records in
         (case lengths of
            [] \<Rightarrow> Inl IndexError
          | l # ls \<Rightarrow>
              Inr (config(PStr ''min_length'' \<mapsto> PInt (int (hd lengths)),
                          PStr ''max_length'' \<mapsto> PInt (int (last lengths) + 200))))))"

section \<open>The demultiplexing tool\<close>

text \<open>
  \<^verbatim>\<open>look_for_guppy_barcoder\<close> does not call \<^verbatim>\<open>add_arg_to_config\<close> by its own name, as
  \<^verbatim>\<open>get_outdir\<close> and \<^verbatim>\<open>get_package_data\<close> do, but as \<^verbatim>\<open>qcfunk.add_arg_to_config\<close>, and
  with the argument first and the key second. The module neither imports nor defines
  \<^verbatim>\<open>qcfunk\<close>: as the file stands, the first of the two calls raises \<^verbatim>\<open>NameError\<close>. The
  embedding takes the binding of that name as a parameter, so that both the module as
  it is and the module with \<^verbatim>\<open>qcfunk\<close> bound to itself can be run.
\<close>

datatype qcfunk_name = Qcfunk_unbound | Qcfunk_is_this_module

definition qcfunk_add_arg_to_config ::
  "qcfunk_name \<Rightarrow> pyval \<Rightarrow> pyval \<Rightarrow> config \<Rightarrow> error + config" where
  "qcfunk_add_arg_to_config qcfunk key arg config =
     (case qcfunk of
        Qcfunk_unbound \<Rightarrow> Inl (NameError ''qcfunk'')
      | Qcfunk_is_this_module \<Rightarrow> add_arg_to_config key arg config)"

definition look_for_guppy_barcoder ::
  "qcfunk_name \<Rightarrow> os_env \<Rightarrow> pyval \<Rightarrow> pyval \<Rightarrow> string \<Rightarrow> config \<Rightarrow> error + config" where
  "look_for_guppy_barcoder qcfunk env demultiplex_arg path_to_guppy_arg cwd config =
     and_then (qcfunk_add_arg_to_config qcfunk demultiplex_arg (PStr ''demultiplex'') config)
       (\<lambda>config1.
     and_then (qcfunk_add_arg_to_config qcfunk path_to_guppy_arg (PStr ''path_to_guppy'') config1)
       (\<lambda>config2.
     and_then (lookup config2 ''demultiplex'') (\<lambda>demultiplex.
       if truthy demultiplex then
         and_then (lookup config2 ''path_to_guppy'') (\<lambda>guppy.
           if truthy guppy then
             and_then (as_path guppy) (\<lambda>p.
               let path_to_guppy = path_join (path_join cwd (expanduser env p)) ''guppy_barcoder''
               in if os_system env path_to_guppy \<noteq> 0
                  then Inl (SystemExit (- 1) (Guppy_fails_to_run path_to_guppy))
                  else Inr config2)
           else Inl (SystemExit (- 1) Provide_path_to_guppy))
       else Inr config2)))"

section \<open>The basecalled reads\<close>

definition is_fastq :: "string \<Rightarrow> bool" where
  "is_fastq fn = (let filename = lower fn in endswith filename ''.fastq'' \<or> endswith filename ''.fq'')"

fun count_in_files :: "string list \<Rightarrow> nat \<Rightarrow> nat" where
  "count_in_files [] fq_files = fq_files"
| "count_in_files (fn # f) fq_files =
     count_in_files f (if is_fastq fn then fq_files + 1 else fq_files)"

fun count_in_walk :: "(string \<times> string list \<times> string list) list \<Rightarrow> nat \<Rightarrow> nat" where
  "count_in_walk [] fq_files = fq_files"
| "count_in_walk ((r, d, f) # rest) fq_files = count_in_walk rest (count_in_files f fq_files)"

text \<open>
  \<^verbatim>\<open>look_for_basecalled_reads(read_path_arg, cwd, config)\<close>. The branch for a
  \<^verbatim>\<open>read_path\<close> key in the configuration has an \<^verbatim>\<open>if config["read_path"]:\<close> with no
  \<^verbatim>\<open>else\<close>: with a value that is not truthy the function returns.
\<close>

definition look_for_basecalled_reads ::
  "os_env \<Rightarrow> pyval \<Rightarrow> string \<Rightarrow> config \<Rightarrow> error + config" where
  "look_for_basecalled_reads env read_path_arg cwd config =
     (if truthy read_path_arg then
        and_then (as_path read_path_arg) (\<lambda>a.
          let read_path = path_join cwd (expanduser env a) in
          if path_exists env read_path
          then Inr (config(PStr ''read_path'' \<mapsto> PStr read_path))
          else Inl (SystemExit (- 1) (Cannot_find_reads read_path)))
      else
        (case config (PStr ''read_path'') of
           Some v \<Rightarrow>
             if truthy v then
               and_then (as_path v) (\<lambda>a.
               and_then (lookup config ''path_to_config'') (\<lambda>path_to_config.
               and_then (as_path path_to_config) (\<lambda>dir.
                 let read_path = path_join dir (expanduser env a);
                     fq_files = count_in_walk (os_walk env read_path) 0
                 in if fq_files > 0 then Inr config
                    else Inl (SystemExit (- 1) (Cannot_find_fastq_files read_path)))))
             else Inr config
         | None \<Rightarrow> Inl (SystemExit (- 1) Read_dir_needed)))"

section \<open>The barcodes\<close>

text \<open>
  The loop over the rows of the barcode file: a value that starts with \<^verbatim>\<open>NB\<close> or
  \<^verbatim>\<open>BC\<close> is appended to \<^verbatim>\<open>barcodes\<close>, any other string is fatal. A row shorter than
  the header has \<^verbatim>\<open>None\<close> in the missing fields, which has no \<^verbatim>\<open>startswith\<close>.
\<close>

definition accepted_barcode :: "string \<Rightarrow> bool" where
  "accepted_barcode b = (startswith b ''NB'' \<or> startswith b ''BC'')"

fun collect_barcodes :: "row list \<Rightarrow> string list \<Rightarrow> error + string list" where
  "collect_barcodes [] barcodes = Inr barcodes"
| "collect_barcodes (row # rest) barcodes =
     (case row ''barcode'' of
        None \<Rightarrow> Inl (KeyError (PStr ''barcode''))
      | Some (PStr b) \<Rightarrow>
          if accepted_barcode b
          then collect_barcodes rest (barcodes @ [b])
          else Inl (SystemExit (- 1) Provide_barcodes_in_format)
      | Some v \<Rightarrow> Inl AttributeError)"

text \<open>
  The body of \<^verbatim>\<open>with open(barcodes_csv, newline="") as f:\<close>. It gives the lines it
  prints and the value that \<^verbatim>\<open>barcodes\<close> is bound to at its end, the joined string.
\<close>

definition read_barcodes :: "csv_table \<Rightarrow> error + (string list \<times> string)" where
  "read_barcodes table =
     (case fieldnames table of
        None \<Rightarrow> Inl TypeError
      | Some column_names \<Rightarrow>
          if ''barcode'' \<in> set column_names then
            and_then (collect_barcodes (rows table) []) (\<lambda>barcodes.
              Inr ((string_of_nat (length barcodes) @ '' barcodes read in from file'')
                     # map (\<lambda>i. ''  - '' @ i) barcodes,
                   join_str '','' barcodes))
          else Inl (SystemExit (- 1) Missing_header_field_barcode))"

text \<open>The first half of \<^verbatim>\<open>look_for_barcodes_csv\<close>: where the barcode file is.\<close>

definition find_barcodes_csv ::
  "os_env \<Rightarrow> pyval \<Rightarrow> string \<Rightarrow> config \<Rightarrow> error + (config \<times> string)" where
  "find_barcodes_csv env barcodes_csv_arg cwd config =
     (if truthy barcodes_csv_arg then
        and_then (as_path barcodes_csv_arg) (\<lambda>a.
          let barcodes_csv = path_join cwd a in
          if path_exists env barcodes_csv then Inr (config, barcodes_csv)
          else Inl (SystemExit (- 1) (Cannot_find_barcodes_csv barcodes_csv)))
      else
        (case config (PStr ''barcodes_csv'') of
           Some v \<Rightarrow>
             if truthy v then
               and_then (as_path v) (\<lambda>a.
               and_then (lookup config ''path_to_config'') (\<lambda>path_to_config.
               and_then (as_path path_to_config) (\<lambda>dir.
                 Inr (config, path_join dir (expanduser env a)))))
             else Inr (config(PStr ''barcodes_csv'' \<mapsto> PStr ''''), '''')
         | None \<Rightarrow> Inr (config(PStr ''barcodes_csv'' \<mapsto> PStr ''''), '''')))"

text \<open>
  \<^verbatim>\<open>look_for_barcodes_csv(barcodes_csv_arg, cwd, config)\<close> returns nothing and stores
  neither the list nor the joined string: what it leaves is the configuration and the
  lines on standard output, which the embedding returns.
\<close>

definition look_for_barcodes_csv ::
  "os_env \<Rightarrow> pyval \<Rightarrow> string \<Rightarrow> config \<Rightarrow> error + (config \<times> string list)" where
  "look_for_barcodes_csv env barcodes_csv_arg cwd config =
     and_then (find_barcodes_csv env barcodes_csv_arg cwd config) (\<lambda>(config1, barcodes_csv).
       let line = ''Input barcodes csv file: '' @ barcodes_csv in
       if barcodes_csv \<noteq> [] then
         and_then (open_csv env barcodes_csv) (\<lambda>table.
         and_then (read_barcodes table) (\<lambda>(printed, barcodes).
           Inr (config1, line # printed)))
       else Inr (config1, [line, green ''No barcodes csv file input'']))"

text \<open>
  The format that the specification gives for a parsed barcode, \<^verbatim>\<open>NB\d+\<close> or
  \<^verbatim>\<open>BC\d+\<close>: the prefix \<^verbatim>\<open>NB\<close> or \<^verbatim>\<open>BC\<close>, then one or more digits and nothing else.
  This predicate follows the specification, not the source.
\<close>

definition is_digit :: "char \<Rightarrow> bool" where
  "is_digit c = (c \<in> set ''0123456789'')"

definition spec_barcode_pattern :: "string \<Rightarrow> bool" where
  "spec_barcode_pattern s =
     ((take 2 s = ''NB'' \<or> take 2 s = ''BC'') \<and> drop 2 s \<noteq> [] \<and> list_all is_digit (drop 2 s))"

section \<open>Example inputs\<close>

text \<open>
  A quiet world for running the functions: no home directory to expand, every path
  exists, directories can be made, nothing is found by a walk, the demultiplexer runs.
\<close>

definition example_env :: os_env where
  "example_env =
     \<lparr>expanduser = (\<lambda>p. p),
      path_exists = (\<lambda>p. True),
      isfile = (\<lambda>p. True),
      mkdir = (\<lambda>p. Inr ()),
      TemporaryDirectory = (\<lambda>d. Inr ''/tmp/tmpk3v9x2qa''),
      os_walk = (\<lambda>p. []),
      os_system = (\<lambda>c. 0),
      yaml_load = (\<lambda>p. Inr []),
      open_csv = (\<lambda>p. Inl OSError),
      seqio_parse = (\<lambda>g. Inl OSError)\<rparr>"

text \<open>The same world with a config file, a barcode file or a gene reference in it.\<close>

definition env_with_yaml :: "(pyval \<times> pyval) list \<Rightarrow> os_env" where
  "env_with_yaml input_config = example_env\<lparr>yaml_load := (\<lambda>p. Inr input_config)\<rparr>"

definition env_with_csv :: "csv_table \<Rightarrow> os_env" where
  "env_with_csv table = example_env\<lparr>open_csv := (\<lambda>p. Inr table)\<rparr>"

definition env_with_fasta :: "nat list \<Rightarrow> os_env" where
  "env_with_fasta records = example_env\<lparr>seqio_parse := (\<lambda>g. Inr records)\<rparr>"

text \<open>
  A world in which \<^verbatim>\<open>/tmp\<close>, \<^verbatim>\<open>/work\<close> and \<^verbatim>\<open>/work/run1\<close> exist and nothing else, and in
  which a temporary directory is named \<^verbatim>\<open>tmpk3v9x2qa\<close> under the directory asked for,
  \<^verbatim>\<open>/tmp\<close> being the system's default.
\<close>

definition disk_env :: os_env where
  "disk_env = example_env
     \<lparr>path_exists := (\<lambda>p. p \<in> {''/tmp'', ''/work'', ''/work/run1''}),
      TemporaryDirectory :=
        (\<lambda>d. Inr (path_join (case d of None \<Rightarrow> ''/tmp'' | Some dir \<Rightarrow> dir) ''tmpk3v9x2qa''))\<rparr>"

text \<open>A barcode file with the single column \<^verbatim>\<open>barcode\<close> and one row for each value.\<close>

definition barcode_row :: "string \<Rightarrow> row" where
  "barcode_row b = [''barcode'' \<mapsto> PStr b]"

definition barcode_table :: "string list \<Rightarrow> csv_table" where
  "barcode_table bs = \<lparr>fieldnames = Some [''barcode''], rows = map barcode_row bs\<rparr>"

section \<open>Basic facts\<close>

lemma and_then_Inl [simp]: "and_then (Inl e) f = Inl e"
  by (simp add: and_then_def)

lemma and_then_Inr [simp]: "and_then (Inr x) f = f x"
  by (simp add: and_then_def)

lemma lookup_Some [simp]: "config (PStr k) = Some v \<Longrightarrow> lookup config k = Inr v"
  by (simp add: lookup_def)

lemma lookup_None [simp]: "config (PStr k) = None \<Longrightarrow> lookup config k = Inl (KeyError (PStr k))"
  by (simp add: lookup_def)

lemma sorted_hd_Min: "sorted xs \<Longrightarrow> xs \<noteq> [] \<Longrightarrow> hd xs = Min (set xs)"
  by (cases xs) (auto intro!: Min_eqI [symmetric])

lemma sorted_last_Max: "sorted xs \<Longrightarrow> xs \<noteq> [] \<Longrightarrow> last xs = Max (set xs)"
  by (induction xs) (auto intro!: Max_eqI [symmetric] simp: max_def)

lemma sort_not_Nil: "(xs :: nat list) \<noteq> [] \<Longrightarrow> sort xs \<noteq> []"
  by (metis set_sort set_empty)

lemma hd_sort_Min: "(xs :: nat list) \<noteq> [] \<Longrightarrow> hd (sort xs) = Min (set xs)"
  using sorted_hd_Min [of "sort xs"] by (simp add: sort_not_Nil)

lemma last_sort_Max: "(xs :: nat list) \<noteq> [] \<Longrightarrow> last (sort xs) = Max (set xs)"
  using sorted_last_Max [of "sort xs"] by (simp add: sort_not_Nil)

lemma string_of_nat_3: "string_of_nat (Suc (Suc (Suc 0))) = ''3''"
  by (subst string_of_nat.simps) (simp add: digit_char_def)

section \<open>Precedence of the three sources\<close>

text \<open>
  Where an option goes through \<^verbatim>\<open>add_arg_to_config(key, arg, config)\<close> with the key
  first, as \<^verbatim>\<open>output_prefix\<close> and \<^verbatim>\<open>species\<close> do, a truthy argument replaces what the
  defaults and the config file left under the key, and any other argument keeps it.
\<close>

lemma add_arg_to_config_truthy:
  "truthy arg \<Longrightarrow> add_arg_to_config (PStr k) arg config = Inr (config(PStr k \<mapsto> arg))"
  by (simp add: add_arg_to_config_def)

lemma add_arg_to_config_not_truthy:
  "\<not> truthy arg \<Longrightarrow> add_arg_to_config key arg config = Inr config"
  by (simp add: add_arg_to_config_def)

lemma add_arg_to_config_after_yaml:
  "and_then (merge_input_config [(PStr k, v)] defaults) (add_arg_to_config (PStr (snakecase_key k)) arg)
     = Inr c \<Longrightarrow>
   c (PStr (snakecase_key k)) = Some (if truthy arg then arg else v)"
  by (auto simp: add_arg_to_config_def split: if_splits)

lemma look_for_guppy_barcoder_unbound:
  "look_for_guppy_barcoder Qcfunk_unbound env demultiplex_arg path_to_guppy_arg cwd config
     = Inl (NameError ''qcfunk'')"
  by (simp add: look_for_guppy_barcoder_def qcfunk_add_arg_to_config_def)

text \<open>
  C1, at the two options of \<^verbatim>\<open>look_for_guppy_barcoder\<close>: with the defaults and the
  command-line values \<^verbatim>\<open>demultiplex_arg = True\<close> and
  \<^verbatim>\<open>path_to_guppy_arg = "/opt/ont-guppy/bin"\<close>, the function does not store either value
  under its option. As the module stands it raises \<^verbatim>\<open>NameError\<close> for \<^verbatim>\<open>qcfunk\<close>; with
  \<^verbatim>\<open>qcfunk\<close> bound to the module, the swapped arguments store the strings
  \<^verbatim>\<open>"demultiplex"\<close> and \<^verbatim>\<open>"path_to_guppy"\<close> under the keys \<^verbatim>\<open>True\<close> and
  \<^verbatim>\<open>"/opt/ont-guppy/bin"\<close>, and \<^verbatim>\<open>config["demultiplex"]\<close> keeps the default \<^verbatim>\<open>False\<close>.
\<close>

theorem look_for_guppy_barcoder_drops_arguments:
  "look_for_guppy_barcoder Qcfunk_unbound env (PBool True) (PStr ''/opt/ont-guppy/bin'') cwd
     get_defaults = Inl (NameError ''qcfunk'')
   \<and> look_for_guppy_barcoder Qcfunk_is_this_module env (PBool True) (PStr ''/opt/ont-guppy/bin'') cwd
       get_defaults
     = Inr (get_defaults(PBool True \<mapsto> PStr ''demultiplex'',
                         PStr ''/opt/ont-guppy/bin'' \<mapsto> PStr ''path_to_guppy''))
   \<and> (get_defaults(PBool True \<mapsto> PStr ''demultiplex'',
                    PStr ''/opt/ont-guppy/bin'' \<mapsto> PStr ''path_to_guppy'')) (PStr ''demultiplex'')
     = Some (PBool False)"
  by (simp add: look_for_guppy_barcoder_def qcfunk_add_arg_to_config_def add_arg_to_config_def
      get_defaults_def lookup_def)

section \<open>Keys of the config file\<close>

text \<open>
  After \<^verbatim>\<open>replace("-","_")\<close> no hyphen is left for \<^verbatim>\<open>lstrip("-")\<close> to strip: the
  normalised key is the key with every hyphen, leading ones included, turned into an
  underscore.
\<close>

lemma lstrip_after_replace: "lstrip_hyphens (replace_hyphens key) = replace_hyphens key"
  by (cases key) (simp_all add: lstrip_hyphens_def replace_hyphens_def)

lemma snakecase_key_replace: "snakecase_key key = replace_hyphens key"
  by (simp add: snakecase_key_def lstrip_after_replace)

lemma snakecase_key_no_hyphen: "CHR ''-'' \<notin> set (snakecase_key key)"
  unfolding snakecase_key_replace by (auto simp: replace_hyphens_def)

lemma snakecase_key_read_dir: "snakecase_key ''read-dir'' = ''read_dir''"
  by (simp add: snakecase_key_def lstrip_hyphens_def replace_hyphens_def)

lemma merge_input_config_one:
  "merge_input_config [(PStr key, v)] config = Inr (config(PStr (replace_hyphens key) \<mapsto> v))"
  by (simp add: snakecase_key_replace)

text \<open>
  C2, at the key \<^verbatim>\<open>--read-dir\<close>: a config file with the single entry
  \<^verbatim>\<open>--read-dir: fastq_pass\<close>, merged into the defaults, leaves the value under the key
  \<^verbatim>\<open>__read_dir\<close>, and the resulting configuration has no key \<^verbatim>\<open>read_dir\<close>.
\<close>

theorem parse_yaml_file_double_hyphen_key:
  "parse_yaml_file (env_with_yaml [(PStr ''--read-dir'', PStr ''fastq_pass'')]) configfile get_defaults
     = Inr (get_defaults(PStr ''__read_dir'' \<mapsto> PStr ''fastq_pass''))
   \<and> (get_defaults(PStr ''__read_dir'' \<mapsto> PStr ''fastq_pass'')) (PStr ''read_dir'') = None"
  by (simp add: parse_yaml_file_def env_with_yaml_def example_env_def snakecase_key_def
      lstrip_hyphens_def replace_hyphens_def get_defaults_def)

section \<open>The barcode file\<close>

lemma collect_barcodes_acc:
  "list_all2 (\<lambda>row b. row ''barcode'' = Some (PStr b) \<and> accepted_barcode b) rs bs
   \<Longrightarrow> collect_barcodes rs acc = Inr (acc @ bs)"
  by (induction rs bs arbitrary: acc rule: list_all2_induct) auto

lemma collect_barcodes_accepted_acc:
  "collect_barcodes rs acc = Inr bs \<Longrightarrow> list_all accepted_barcode acc \<Longrightarrow> list_all accepted_barcode bs"
  by (induction rs arbitrary: acc) (auto split: option.splits pyval.splits if_splits)

text \<open>
  For a barcode file that is found and opened, whose header has the field
  \<^verbatim>\<open>barcode\<close> and whose rows carry, in this order, the values \<open>bs\<close>, each starting with
  \<^verbatim>\<open>NB\<close> or \<^verbatim>\<open>BC\<close>, the loop collects exactly the list \<open>bs\<close>, the block binds
  \<^verbatim>\<open>barcodes\<close> to the comma-separated join of \<open>bs\<close>, and the function prints the number
  of barcodes and then each of them in row order.
\<close>

lemma look_for_barcodes_csv_prints_rows:
  assumes found: "find_barcodes_csv env barcodes_csv_arg cwd config = Inr (config1, barcodes_csv)"
    and nonempty: "barcodes_csv \<noteq> []"
    and opened: "open_csv env barcodes_csv = Inr table"
    and header: "fieldnames table = Some column_names" "''barcode'' \<in> set column_names"
    and valid: "list_all2 (\<lambda>row b. row ''barcode'' = Some (PStr b) \<and> accepted_barcode b) (rows table) bs"
  shows "collect_barcodes (rows table) [] = Inr bs
    \<and> read_barcodes table =
        Inr ((string_of_nat (length bs) @ '' barcodes read in from file'') # map (\<lambda>b. ''  - '' @ b) bs,
             join_str '','' bs)
    \<and> look_for_barcodes_csv env barcodes_csv_arg cwd config =
        Inr (config1,
             (''Input barcodes csv file: '' @ barcodes_csv)
               # (string_of_nat (length bs) @ '' barcodes read in from file'')
               # map (\<lambda>b. ''  - '' @ b) bs)"
proof -
  have loop: "collect_barcodes (rows table) [] = Inr bs"
    using collect_barcodes_acc [OF valid, of "[]"] by simp
  have block: "read_barcodes table =
        Inr ((string_of_nat (length bs) @ '' barcodes read in from file'') # map (\<lambda>b. ''  - '' @ b) bs,
             join_str '','' bs)"
    using header loop by (simp add: read_barcodes_def)
  have whole: "look_for_barcodes_csv env barcodes_csv_arg cwd config =
        Inr (config1,
             (''Input barcodes csv file: '' @ barcodes_csv)
               # (string_of_nat (length bs) @ '' barcodes read in from file'')
               # map (\<lambda>b. ''  - '' @ b) bs)"
    using found nonempty opened block by (simp add: look_for_barcodes_csv_def)
  from loop block whole show ?thesis by simp
qed

text \<open>
  Whatever the barcode file holds, the configuration that \<^verbatim>\<open>look_for_barcodes_csv\<close>
  leaves is the one it was given, but for an empty \<^verbatim>\<open>barcodes_csv\<close> where no file was
  named: nothing of the barcodes is stored in it.
\<close>

lemma look_for_barcodes_csv_config:
  "look_for_barcodes_csv env barcodes_csv_arg cwd config = Inr (config', printed) \<Longrightarrow>
   config' = config \<or> config' = config(PStr ''barcodes_csv'' \<mapsto> PStr '''')"
  by (auto simp: look_for_barcodes_csv_def find_barcodes_csv_def and_then_def Let_def
      split: if_splits sum.splits option.splits prod.splits)

text \<open>
  C4, at the file of the specification, with header \<^verbatim>\<open>barcode\<close> and the rows
  \<^verbatim>\<open>NB01\<close>, \<^verbatim>\<open>NB02\<close>, \<^verbatim>\<open>BC03\<close>, given as \<^verbatim>\<open>barcodes.csv\<close> in \<^verbatim>\<open>/work\<close> with the default
  configuration: the loop collects the three values in row order and the block binds
  \<^verbatim>\<open>barcodes\<close> to \<^verbatim>\<open>NB01,NB02,BC03\<close>, but \<^verbatim>\<open>look_for_barcodes_csv\<close> hands neither on. It
  returns nothing, and the configuration it leaves is the default one, in which
  \<^verbatim>\<open>barcodes\<close> is still \<^verbatim>\<open>native\<close>; the three values appear in its printed lines only.
\<close>

theorem look_for_barcodes_csv_join_dropped:
  "collect_barcodes (rows (barcode_table [''NB01'', ''NB02'', ''BC03''])) [] = Inr [''NB01'', ''NB02'', ''BC03'']
   \<and> read_barcodes (barcode_table [''NB01'', ''NB02'', ''BC03'']) =
       Inr ([''3 barcodes read in from file'', ''  - NB01'', ''  - NB02'', ''  - BC03''],
            ''NB01,NB02,BC03'')
   \<and> look_for_barcodes_csv (env_with_csv (barcode_table [''NB01'', ''NB02'', ''BC03'']))
         (PStr ''barcodes.csv'') ''/work'' get_defaults =
       Inr (get_defaults,
            [''Input barcodes csv file: /work/barcodes.csv'', ''3 barcodes read in from file'',
             ''  - NB01'', ''  - NB02'', ''  - BC03''])
   \<and> get_defaults (PStr ''barcodes'') = Some (PStr ''native'')"
proof -
  let ?table = "barcode_table [''NB01'', ''NB02'', ''BC03'']"
  have found: "find_barcodes_csv (env_with_csv ?table) (PStr ''barcodes.csv'') ''/work'' get_defaults
      = Inr (get_defaults, ''/work/barcodes.csv'')"
    by (simp add: find_barcodes_csv_def env_with_csv_def example_env_def path_join_def
        startswith_def endswith_def)
  have nonempty: "''/work/barcodes.csv'' \<noteq> []" by simp
  have opened: "open_csv (env_with_csv ?table) ''/work/barcodes.csv'' = Inr ?table"
    by (simp add: env_with_csv_def)
  have header: "fieldnames ?table = Some [''barcode'']" "''barcode'' \<in> set [''barcode'']"
    by (simp_all add: barcode_table_def)
  have valid: "list_all2 (\<lambda>row b. row ''barcode'' = Some (PStr b) \<and> accepted_barcode b)
      (rows ?table) [''NB01'', ''NB02'', ''BC03'']"
    by (simp add: barcode_table_def barcode_row_def accepted_barcode_def startswith_def)
  have unchanged: "get_defaults (PStr ''barcodes'') = Some (PStr ''native'')"
    by (simp add: get_defaults_def)
  show ?thesis
    using look_for_barcodes_csv_prints_rows [OF found nonempty opened header valid] unchanged
    by (simp add: string_of_nat_3)
qed

text \<open>
  C5 as stated fails: the single row \<^verbatim>\<open>NBxyz\<close> is accepted into the list, and
  \<^verbatim>\<open>look_for_barcodes_csv\<close> returns and prints it, although \<^verbatim>\<open>NBxyz\<close> is not \<^verbatim>\<open>NB\<close> or
  \<^verbatim>\<open>BC\<close> followed by digits.
\<close>

theorem collect_barcodes_accepts_non_digits:
  "collect_barcodes (rows (barcode_table [''NBxyz''])) [] = Inr [''NBxyz'']
   \<and> look_for_barcodes_csv (env_with_csv (barcode_table [''NBxyz''])) (PStr ''barcodes.csv'') ''/work''
        get_defaults
      = Inr (get_defaults,
             [''Input barcodes csv file: /work/barcodes.csv'', ''1 barcodes read in from file'',
              ''  - NBxyz''])
   \<and> \<not> spec_barcode_pattern ''NBxyz''"
  by (simp add: barcode_table_def barcode_row_def accepted_barcode_def startswith_def
      spec_barcode_pattern_def is_digit_def look_for_barcodes_csv_def find_barcodes_csv_def
      env_with_csv_def example_env_def path_join_def endswith_def read_barcodes_def
      string_of_nat.simps digit_char_def)

text \<open>
  C5 as amended: every string that the loop of \<^verbatim>\<open>look_for_barcodes_csv\<close> accepts into
  the barcode list starts with \<^verbatim>\<open>NB\<close> or with \<^verbatim>\<open>BC\<close>.
\<close>

theorem collect_barcodes_prefix:
  "collect_barcodes rs [] = Inr bs \<Longrightarrow> list_all accepted_barcode bs"
  using collect_barcodes_accepted_acc [of rs "[]" bs] by simp

text \<open>C5 as amended, at the rows \<^verbatim>\<open>NB01\<close> and \<^verbatim>\<open>BCx\<close>.\<close>

theorem collect_barcodes_prefix_witness:
  "collect_barcodes (rows (barcode_table [''NB01'', ''BCx''])) [] = Inr [''NB01'', ''BCx'']
   \<and> list_all accepted_barcode [''NB01'', ''BCx'']"
proof -
  have run: "collect_barcodes (rows (barcode_table [''NB01'', ''BCx''])) [] = Inr [''NB01'', ''BCx'']"
    by (simp add: barcode_table_def barcode_row_def accepted_barcode_def startswith_def)
  from run collect_barcodes_prefix [OF run] show ?thesis by simp
qed

section \<open>An explicit config file\<close>

text \<open>Without an argument, \<^verbatim>\<open>config.yaml\<close> in the working directory is looked for.\<close>

lemma look_for_config_no_argument:
  "\<not> truthy configfile_arg \<Longrightarrow>
   look_for_config env configfile_arg cwd config =
     (if isfile env (path_join cwd ''config.yaml'')
      then Inr (config(PStr ''path_to_config'' \<mapsto> PStr cwd,
                       PStr ''configfile'' \<mapsto> PStr (path_join cwd ''config.yaml'')),
                path_join cwd ''config.yaml'')
      else Inr (config(PStr ''path_to_config'' \<mapsto> PStr cwd), ''''))"
  by (simp add: look_for_config_def Let_def)

text \<open>
  C6: with any non-empty string as \<^verbatim>\<open>configfile_arg\<close>, whether or not the file
  exists, \<^verbatim>\<open>look_for_config\<close> raises \<^verbatim>\<open>NameError\<close> for \<^verbatim>\<open>input_file\<close>; it records neither
  \<^verbatim>\<open>path_to_config\<close> nor \<^verbatim>\<open>configfile\<close> and does not reach its own fatal message.
\<close>

theorem look_for_config_argument_raises:
  "look_for_config env (PStr (c # cs)) cwd config = Inl (NameError ''input_file'')"
  by (simp add: look_for_config_def)

section \<open>The read path\<close>

text \<open>
  Without an argument and without the key \<^verbatim>\<open>read_path\<close> the function is fatal, and so
  is a read path from the config file under which no file ends in \<^verbatim>\<open>.fastq\<close> or
  \<^verbatim>\<open>.fq\<close>; the path is joined to the directory of the config file.
\<close>

lemma look_for_basecalled_reads_no_source:
  "\<not> truthy read_path_arg \<Longrightarrow> config (PStr ''read_path'') = None \<Longrightarrow>
   look_for_basecalled_reads env read_path_arg cwd config = Inl (SystemExit (- 1) Read_dir_needed)"
  by (simp add: look_for_basecalled_reads_def)

lemma look_for_basecalled_reads_from_config:
  "\<not> truthy read_path_arg \<Longrightarrow> config (PStr ''read_path'') = Some (PStr (c # cs)) \<Longrightarrow>
   config (PStr ''path_to_config'') = Some (PStr dir) \<Longrightarrow>
   look_for_basecalled_reads env read_path_arg cwd config =
     (if count_in_walk (os_walk env (path_join dir (expanduser env (c # cs)))) 0 = 0
      then Inl (SystemExit (- 1) (Cannot_find_fastq_files (path_join dir (expanduser env (c # cs)))))
      else Inr config)"
  by (simp add: look_for_basecalled_reads_def Let_def)

lemma look_for_basecalled_reads_not_truthy:
  "\<not> truthy read_path_arg \<Longrightarrow> config (PStr ''read_path'') = Some v \<Longrightarrow> \<not> truthy v \<Longrightarrow>
   look_for_basecalled_reads env read_path_arg cwd config = Inr config"
  by (simp add: look_for_basecalled_reads_def)

text \<open>
  C7, at a config file that gives \<^verbatim>\<open>read_path\<close> the empty string, with no argument:
  \<^verbatim>\<open>look_for_basecalled_reads\<close> returns, with the configuration as it was, and is not
  fatal.
\<close>

theorem look_for_basecalled_reads_empty_read_path:
  "look_for_basecalled_reads env PNone cwd (config(PStr ''read_path'' \<mapsto> PStr ''''))
     = Inr (config(PStr ''read_path'' \<mapsto> PStr ''''))"
  by (simp add: look_for_basecalled_reads_def)

section \<open>No temporary directory\<close>

text \<open>
  C8: when \<^verbatim>\<open>outdir\<close> is in the configuration and the no-temp flag is set, by a truthy
  argument or by a truthy \<^verbatim>\<open>no_temp\<close> in the configuration, \<^verbatim>\<open>get_temp_dir\<close> returns the
  value of \<^verbatim>\<open>outdir\<close>, records that same value as \<^verbatim>\<open>tempdir\<close>, and leaves \<^verbatim>\<open>outdir\<close> as it
  was.
\<close>

theorem get_temp_dir_no_temp:
  assumes outdir: "config (PStr ''outdir'') = Some outdir"
    and flag: "truthy no_temp_arg \<or> (\<exists>v. config (PStr ''no_temp'') = Some v \<and> truthy v)"
  shows "\<exists>config'. get_temp_dir env tempdir_arg no_temp_arg cwd config = Inr (config', outdir)
           \<and> config' (PStr ''tempdir'') = Some outdir
           \<and> config' (PStr ''outdir'') = Some outdir"
  using assms by (auto simp add: get_temp_dir_def)

text \<open>
  C8 at the output directory \<^verbatim>\<open>/work/run1\<close>, once with the flag as argument and once
  with \<^verbatim>\<open>no_temp: true\<close> in the configuration, a temp-directory argument being given
  both times.
\<close>

theorem get_temp_dir_no_temp_witness:
  "(\<exists>config'. get_temp_dir example_env (PStr ''scratch'') (PBool True) ''/work''
        (get_defaults(PStr ''outdir'' \<mapsto> PStr ''/work/run1''))
      = Inr (config', PStr ''/work/run1'')
      \<and> config' (PStr ''tempdir'') = Some (PStr ''/work/run1'')
      \<and> config' (PStr ''outdir'') = Some (PStr ''/work/run1''))
   \<and> (\<exists>config'. get_temp_dir example_env (PStr ''scratch'') PNone ''/work''
        (get_defaults(PStr ''no_temp'' \<mapsto> PBool True, PStr ''outdir'' \<mapsto> PStr ''/work/run1''))
      = Inr (config', PStr ''/work/run1'')
      \<and> config' (PStr ''tempdir'') = Some (PStr ''/work/run1'')
      \<and> config' (PStr ''outdir'') = Some (PStr ''/work/run1''))"
proof -
  have o1: "(get_defaults(PStr ''outdir'' \<mapsto> PStr ''/work/run1'')) (PStr ''outdir'')
      = Some (PStr ''/work/run1'')" by simp
  have f1: "truthy (PBool True) \<or> (\<exists>v. (get_defaults(PStr ''outdir'' \<mapsto> PStr ''/work/run1''))
      (PStr ''no_temp'') = Some v \<and> truthy v)" by simp
  have o2: "(get_defaults(PStr ''no_temp'' \<mapsto> PBool True, PStr ''outdir'' \<mapsto> PStr ''/work/run1''))
      (PStr ''outdir'') = Some (PStr ''/work/run1'')" by simp
  have f2: "truthy PNone \<or> (\<exists>v. (get_defaults(PStr ''no_temp'' \<mapsto> PBool True,
      PStr ''outdir'' \<mapsto> PStr ''/work/run1'')) (PStr ''no_temp'') = Some v \<and> truthy v)" by simp
  from get_temp_dir_no_temp [OF o1 f1, of example_env "PStr ''scratch''" "''/work''"]
    get_temp_dir_no_temp [OF o2 f2, of example_env "PStr ''scratch''" "''/work''"]
  show ?thesis by (rule conjI)
qed

section \<open>The temporary directory after the return\<close>

text \<open>Leaving the directories out gives \<^verbatim>\<open>get_temp_dir\<close> as it is embedded above.\<close>

lemma temporary_directory_in_dirs_name:
  "map_sum id fst (temporary_directory_in_dirs env cwd path dirs) = temporary_directory_in env cwd path"
  by (auto simp: temporary_directory_in_dirs_def temporary_directory_in_def and_then_def Let_def
      split: sum.splits)

lemma get_temp_dir_dirs_result:
  "map_sum id (\<lambda>(config', tempdir, dirs'). (config', tempdir))
     (get_temp_dir_dirs env tempdir_arg no_temp_arg cwd config dirs)
   = get_temp_dir env tempdir_arg no_temp_arg cwd config"
  using temporary_directory_in_dirs_name [of env cwd tempdir_arg dirs]
    temporary_directory_in_dirs_name [of env cwd "the (config (PStr ''tempdir''))" dirs]
  by (auto simp: get_temp_dir_dirs_def get_temp_dir_def and_then_def
      split: sum.splits option.splits prod.splits)

lemma not_in_rmtree: "name \<notin> rmtree name dirs"
  by (simp add: rmtree_def)

text \<open>
  In every branch that makes a temporary directory, the directory recorded as
  \<^verbatim>\<open>tempdir\<close> is not among the directories that exist when the function has returned.
\<close>

lemma get_temp_dir_dirs_removed:
  "get_temp_dir_dirs env tempdir_arg no_temp_arg cwd config dirs = Inr (config', tempdir, dirs') \<Longrightarrow>
   \<not> truthy no_temp_arg \<Longrightarrow> config (PStr ''no_temp'') = Some no_temp \<Longrightarrow> \<not> truthy no_temp \<Longrightarrow>
   \<exists>name. tempdir = PStr name \<and> config' (PStr ''tempdir'') = Some (PStr name) \<and> name \<notin> dirs'"
  by (auto simp: get_temp_dir_dirs_def and_then_def not_in_rmtree
      split: sum.splits option.splits prod.splits if_splits)

text \<open>
  C3, in the default branch and in the two branches with an explicit temporary
  directory (\<^verbatim>\<open>scratch\<close>, as argument and as \<^verbatim>\<open>tempdir\<close> of the config file), each run in
  \<^verbatim>\<open>/work\<close> with the output directory \<^verbatim>\<open>/work/run1\<close> recorded, on a disk that has \<^verbatim>\<open>/tmp\<close>,
  \<^verbatim>\<open>/work\<close> and \<^verbatim>\<open>/work/run1\<close>: \<^verbatim>\<open>get_temp_dir\<close> returns the name of the new directory and
  records it as \<^verbatim>\<open>tempdir\<close>, and when it has returned that directory is gone, while the
  directories around it are still there.
\<close>

theorem get_temp_dir_directory_removed:
  "get_temp_dir_dirs disk_env PNone PNone ''/work''
      (get_defaults(PStr ''outdir'' \<mapsto> PStr ''/work/run1'')) {''/tmp'', ''/work'', ''/work/run1''}
     = Inr (get_defaults(PStr ''outdir'' \<mapsto> PStr ''/work/run1'',
                         PStr ''tempdir'' \<mapsto> PStr ''/tmp/tmpk3v9x2qa''),
            PStr ''/tmp/tmpk3v9x2qa'',
            rmtree ''/tmp/tmpk3v9x2qa'' {''/tmp/tmpk3v9x2qa'', ''/tmp'', ''/work'', ''/work/run1''})
   \<and> ''/tmp/tmpk3v9x2qa'' \<notin> rmtree ''/tmp/tmpk3v9x2qa'' {''/tmp/tmpk3v9x2qa'', ''/tmp'', ''/work'', ''/work/run1''}
   \<and> ''/work/run1'' \<in> rmtree ''/tmp/tmpk3v9x2qa'' {''/tmp/tmpk3v9x2qa'', ''/tmp'', ''/work'', ''/work/run1''}
   \<and> get_temp_dir_dirs disk_env (PStr ''scratch'') PNone ''/work''
      (get_defaults(PStr ''outdir'' \<mapsto> PStr ''/work/run1'')) {''/tmp'', ''/work'', ''/work/run1''}
     = Inr (get_defaults(PStr ''outdir'' \<mapsto> PStr ''/work/run1'',
                         PStr ''tempdir'' \<mapsto> PStr ''/work/scratch/tmpk3v9x2qa''),
            PStr ''/work/scratch/tmpk3v9x2qa'',
            rmtree ''/work/scratch/tmpk3v9x2qa''
              {''/work/scratch/tmpk3v9x2qa'', ''/work/scratch'', ''/tmp'', ''/work'', ''/work/run1''})
   \<and> get_temp_dir_dirs disk_env PNone PNone ''/work''
      (get_defaults(PStr ''outdir'' \<mapsto> PStr ''/work/run1'', PStr ''tempdir'' \<mapsto> PStr ''scratch''))
      {''/tmp'', ''/work'', ''/work/run1''}
     = Inr (get_defaults(PStr ''outdir'' \<mapsto> PStr ''/work/run1'',
                         PStr ''tempdir'' \<mapsto> PStr ''/work/scratch/tmpk3v9x2qa''),
            PStr ''/work/scratch/tmpk3v9x2qa'',
            rmtree ''/work/scratch/tmpk3v9x2qa''
              {''/work/scratch/tmpk3v9x2qa'', ''/work/scratch'', ''/tmp'', ''/work'', ''/work/run1''})
   \<and> ''/work/scratch/tmpk3v9x2qa'' \<notin> rmtree ''/work/scratch/tmpk3v9x2qa''
         {''/work/scratch/tmpk3v9x2qa'', ''/work/scratch'', ''/tmp'', ''/work'', ''/work/run1''}
   \<and> ''/work/scratch'' \<in> rmtree ''/work/scratch/tmpk3v9x2qa''
         {''/work/scratch/tmpk3v9x2qa'', ''/work/scratch'', ''/tmp'', ''/work'', ''/work/run1''}"
proof -
  have default: "get_temp_dir_dirs disk_env PNone PNone ''/work''
      (get_defaults(PStr ''outdir'' \<mapsto> PStr ''/work/run1'')) {''/tmp'', ''/work'', ''/work/run1''}
     = Inr (get_defaults(PStr ''outdir'' \<mapsto> PStr ''/work/run1'',
                         PStr ''tempdir'' \<mapsto> PStr ''/tmp/tmpk3v9x2qa''),
            PStr ''/tmp/tmpk3v9x2qa'',
            rmtree ''/tmp/tmpk3v9x2qa'' {''/tmp/tmpk3v9x2qa'', ''/tmp'', ''/work'', ''/work/run1''})"
    by (simp add: get_temp_dir_dirs_def disk_env_def example_env_def get_defaults_def lookup_def
        path_join_def startswith_def endswith_def)
  have by_argument: "get_temp_dir_dirs disk_env (PStr ''scratch'') PNone ''/work''
      (get_defaults(PStr ''outdir'' \<mapsto> PStr ''/work/run1'')) {''/tmp'', ''/work'', ''/work/run1''}
     = Inr (get_defaults(PStr ''outdir'' \<mapsto> PStr ''/work/run1'',
                         PStr ''tempdir'' \<mapsto> PStr ''/work/scratch/tmpk3v9x2qa''),
            PStr ''/work/scratch/tmpk3v9x2qa'',
            rmtree ''/work/scratch/tmpk3v9x2qa''
              {''/work/scratch/tmpk3v9x2qa'', ''/work/scratch'', ''/tmp'', ''/work'', ''/work/run1''})"
    by (simp add: get_temp_dir_dirs_def temporary_directory_in_dirs_def disk_env_def example_env_def
        get_defaults_def lookup_def path_join_def startswith_def endswith_def)
  have by_config: "get_temp_dir_dirs disk_env PNone PNone ''/work''
      (get_defaults(PStr ''outdir'' \<mapsto> PStr ''/work/run1'', PStr ''tempdir'' \<mapsto> PStr ''scratch''))
      {''/tmp'', ''/work'', ''/work/run1''}
     = Inr (get_defaults(PStr ''outdir'' \<mapsto> PStr ''/work/run1'',
                         PStr ''tempdir'' \<mapsto> PStr ''/work/scratch/tmpk3v9x2qa''),
            PStr ''/work/scratch/tmpk3v9x2qa'',
            rmtree ''/work/scratch/tmpk3v9x2qa''
              {''/work/scratch/tmpk3v9x2qa'', ''/work/scratch'', ''/tmp'', ''/work'', ''/work/run1''})"
    by (simp add: get_temp_dir_dirs_def temporary_directory_in_dirs_def disk_env_def example_env_def
        get_defaults_def lookup_def path_join_def startswith_def endswith_def)
  have gone: "''/tmp/tmpk3v9x2qa'' \<notin> rmtree ''/tmp/tmpk3v9x2qa'' {''/tmp/tmpk3v9x2qa'', ''/tmp'', ''/work'', ''/work/run1''}"
    "''/work/scratch/tmpk3v9x2qa'' \<notin> rmtree ''/work/scratch/tmpk3v9x2qa''
         {''/work/scratch/tmpk3v9x2qa'', ''/work/scratch'', ''/tmp'', ''/work'', ''/work/run1''}"
    by (simp_all add: rmtree_def)
  have kept: "''/work/run1'' \<in> rmtree ''/tmp/tmpk3v9x2qa'' {''/tmp/tmpk3v9x2qa'', ''/tmp'', ''/work'', ''/work/run1''}"
    "''/work/scratch'' \<in> rmtree ''/work/scratch/tmpk3v9x2qa''
         {''/work/scratch/tmpk3v9x2qa'', ''/work/scratch'', ''/tmp'', ''/work'', ''/work/run1''}"
    by (simp_all add: rmtree_def startswith_def)
  from default by_argument by_config gone kept show ?thesis by blast
qed

section \<open>The read-length bounds\<close>

text \<open>
  C9: when the gene reference of the configuration parses to at least one record,
  \<^verbatim>\<open>get_read_length_filter\<close> sets \<^verbatim>\<open>min_length\<close> to the least record length and
  \<^verbatim>\<open>max_length\<close> to the greatest record length plus 200.
\<close>

theorem get_read_length_filter_bounds:
  assumes genes: "config (PStr ''genes'') = Some genes"
    and parsed: "seqio_parse env genes = Inr records"
    and nonempty: "records \<noteq> []"
  shows "get_read_length_filter env config =
     Inr (config(PStr ''min_length'' \<mapsto> PInt (int (Min (set records))),
                 PStr ''max_length'' \<mapsto> PInt (int (Max (set records)) + 200)))"
proof -
  from nonempty obtain l ls where sorted_eq: "sort records = l # ls"
    using sort_not_Nil [of records] by (cases "sort records") auto
  have "hd (sort records) = Min (set records)" "last (sort records) = Max (set records)"
    using nonempty by (simp_all add: hd_sort_Min last_sort_Max)
  with genes parsed sorted_eq show ?thesis
    by (simp add: get_read_length_filter_def Let_def)
qed

text \<open>
  C9 at a reference with records of length 220 and 180, in this order:
  \<^verbatim>\<open>min_length\<close> is 180 and \<^verbatim>\<open>max_length\<close> is 420.
\<close>

theorem get_read_length_filter_bounds_witness:
  "get_read_length_filter (env_with_fasta [220, 180]) (get_defaults(PStr ''genes'' \<mapsto> PStr ''genes.fasta''))
     = Inr (get_defaults(PStr ''genes'' \<mapsto> PStr ''genes.fasta'',
                         PStr ''min_length'' \<mapsto> PInt 180,
                         PStr ''max_length'' \<mapsto> PInt 420))"
proof -
  have genes: "(get_defaults(PStr ''genes'' \<mapsto> PStr ''genes.fasta'')) (PStr ''genes'')
      = Some (PStr ''genes.fasta'')" by simp
  have parsed: "seqio_parse (env_with_fasta [220, 180]) (PStr ''genes.fasta'') = Inr [220, 180]"
    by (simp add: env_with_fasta_def)
  have nonempty: "[220, 180 :: nat] \<noteq> []" by simp
  show ?thesis
    using get_read_length_filter_bounds
      [where config = "get_defaults(PStr ''genes'' \<mapsto> PStr ''genes.fasta'')"
         and genes = "PStr ''genes.fasta''" and env = "env_with_fasta [220, 180]"
         and records = "[220, 180]", OF genes parsed nonempty]
    by simp
qed

text \<open>
  C10: when the gene reference of the configuration is parsed, \<^verbatim>\<open>get_read_length_filter\<close>
  raises \<^verbatim>\<open>IndexError\<close> exactly when there is no record, and returns a configuration
  exactly when there is at least one.
\<close>

theorem get_read_length_filter_IndexError_iff:
  assumes genes: "config (PStr ''genes'') = Some genes"
    and parsed: "seqio_parse env genes = Inr records"
  shows "((get_read_length_filter env config = Inl IndexError) = (records = []))
     \<and> ((\<exists>config'. get_read_length_filter env config = Inr config') = (records \<noteq> []))"
proof (cases "records = []")
  case True
  with genes parsed show ?thesis by (simp add: get_read_length_filter_def)
next
  case False
  then obtain l ls where "sort records = l # ls"
    using sort_not_Nil [of records] by (cases "sort records") auto
  with genes parsed False show ?thesis by (simp add: get_read_length_filter_def Let_def)
qed

text \<open>C10 at a reference without records and at one with records of length 180 and 220.\<close>

theorem get_read_length_filter_IndexError_iff_witness:
  "get_read_length_filter (env_with_fasta []) (get_defaults(PStr ''genes'' \<mapsto> PStr ''genes.fasta''))
     = Inl IndexError
   \<and> (\<exists>config'. get_read_length_filter (env_with_fasta [180, 220])
         (get_defaults(PStr ''genes'' \<mapsto> PStr ''genes.fasta'')) = Inr config')"
proof -
  have genes: "(get_defaults(PStr ''genes'' \<mapsto> PStr ''genes.fasta'')) (PStr ''genes'')
      = Some (PStr ''genes.fasta'')" by simp
  have p0: "seqio_parse (env_with_fasta []) (PStr ''genes.fasta'') = Inr []"
    by (simp add: env_with_fasta_def)
  have p2: "seqio_parse (env_with_fasta [180, 220]) (PStr ''genes.fasta'') = Inr [180, 220]"
    by (simp add: env_with_fasta_def)
  show ?thesis
    using get_read_length_filter_IndexError_iff
      [where config = "get_defaults(PStr ''genes'' \<mapsto> PStr ''genes.fasta'')"
         and genes = "PStr ''genes.fasta''" and env = "env_with_fasta []"
         and records = "[]", OF genes p0]
      get_read_length_filter_IndexError_iff
      [where config = "get_defaults(PStr ''genes'' \<mapsto> PStr ''genes.fasta'')"
         and genes = "PStr ''genes.fasta''" and env = "env_with_fasta [180, 220]"
         and records = "[180, 220]", OF genes p2]
    by simp
qed

end
